theory Spec2Isabelle
  imports Main "HOL-Library.Char_ord"
begin

section \<open>The 3DS add-on's operator glue (io\_scene\_3ds/\_\_init\_\_.py)\<close>

text \<open>
  The module binds two file operators (\<open>Import3DS\<close>, \<open>Export3DS\<close>), four file-browser
  panels and two menu callbacks to the host application. The codec functions
  \<open>import_3ds.load\<close> and \<open>export_3ds.save\<close> live in sibling modules; the operators only
  call them, so they are parameters of the model. What the host supplies
  (\<open>as_keywords\<close>, \<open>axis_conversion\<close>, \<open>Matrix.to_4x4\<close>, \<open>register_class\<close>, the menu
  lists, \<open>UILayout\<close>) is modelled as far as the module uses it.
\<close>

subsection \<open>Property values and the two operators\<close>

text \<open>
  The items of the two orientation enums: \<^verbatim>\<open>'X', 'Y', 'Z', '-X', '-Y', '-Z'\<close>.
\<close>

datatype axis = X | Y | Z | NegX | NegY | NegZ

type_synonym matrix = "int list list"

text \<open>
  A value carried by an operator property or by a keyword argument. The float type is a
  parameter: the module never computes with \<open>constrain_size\<close> or \<open>scale_factor\<close>, it
  hands them on. The entries of an axis matrix are \<open>-1\<close>, \<open>0\<close> and \<open>1\<close>, kept as integers.
\<close>

datatype 'f prop_value =
    BoolV bool
  | FloatV 'f
  | StringV string
  | EnumV axis
  | MatrixV matrix

text \<open>
  The properties both operators share: \<open>filepath\<close> comes from the import/export helper
  base class, \<open>filter_glob\<close> is declared by each operator class, \<open>axis_forward\<close> and
  \<open>axis_up\<close> are added by the decorator \<^verbatim>\<open>@orientation_helper(axis_forward='Y', axis_up='Z')\<close>.
\<close>

record file_operator =
  filepath :: string
  filter_glob :: string
  axis_forward :: axis
  axis_up :: axis

record 'f Import3DS = file_operator +
  constrain_size :: 'f
  convert_measure :: bool
  use_image_search :: bool
  use_apply_transform :: bool
  read_keyframe :: bool
  use_world_matrix :: bool

text \<open>
  \<open>check_existing\<close> is the export helper's own property; the export operator names it in
  its ignore tuple.
\<close>

record 'f Export3DS = file_operator +
  check_existing :: bool
  scale_factor :: 'f
  use_selection :: bool
  use_hierarchy :: bool
  write_keyframe :: bool

definition Import3DS_bl_idname :: string where
  "Import3DS_bl_idname = ''import_scene.max3ds''"

definition Export3DS_bl_idname :: string where
  "Export3DS_bl_idname = ''export_scene.max3ds''"

text \<open>The orientation defaults given to the decorator on both classes.\<close>

definition orientation_default :: "axis \<times> axis" where
  "orientation_default = (Y, Z)"

text \<open>The operator's properties by name, as \<open>as_keywords\<close> walks them.\<close>

definition Import3DS_properties :: "'f Import3DS \<Rightarrow> (string \<times> 'f prop_value) list" where
  "Import3DS_properties self =
     [(''filepath'', StringV (filepath self)),
      (''filter_glob'', StringV (filter_glob self)),
      (''constrain_size'', FloatV (constrain_size self)),
      (''convert_measure'', BoolV (convert_measure self)),
      (''use_image_search'', BoolV (use_image_search self)),
      (''use_apply_transform'', BoolV (use_apply_transform self)),
      (''read_keyframe'', BoolV (read_keyframe self)),
      (''use_world_matrix'', BoolV (use_world_matrix self)),
      (''axis_forward'', EnumV (axis_forward self)),
      (''axis_up'', EnumV (axis_up self))]"

definition Export3DS_properties :: "'f Export3DS \<Rightarrow> (string \<times> 'f prop_value) list" where
  "Export3DS_properties self =
     [(''filepath'', StringV (filepath self)),
      (''check_existing'', BoolV (check_existing self)),
      (''filter_glob'', StringV (filter_glob self)),
      (''scale_factor'', FloatV (scale_factor self)),
      (''use_selection'', BoolV (use_selection self)),
      (''use_hierarchy'', BoolV (use_hierarchy self)),
      (''write_keyframe'', BoolV (write_keyframe self)),
      (''axis_forward'', EnumV (axis_forward self)),
      (''axis_up'', EnumV (axis_up self))]"

text \<open>
  The configuration fields: what each operator class declares, with the file path and
  the two orientation enums (the spec's ImportConfiguration and ExportConfiguration,
  and the hidden \<open>filter_glob\<close>).
\<close>

definition Import3DS_fields :: "string list" where
  "Import3DS_fields =
     [''filepath'', ''filter_glob'', ''constrain_size'', ''convert_measure'',
      ''use_image_search'', ''use_apply_transform'', ''read_keyframe'',
      ''use_world_matrix'', ''axis_forward'', ''axis_up'']"

definition Export3DS_fields :: "string list" where
  "Export3DS_fields =
     [''filepath'', ''filter_glob'', ''scale_factor'', ''use_selection'',
      ''use_hierarchy'', ''write_keyframe'', ''axis_forward'', ''axis_up'']"

subsection \<open>Host helpers the operators call\<close>

text \<open>
  \<open>Operator.as_keywords(ignore=...)\<close>: a dictionary of the operator's properties, the
  ignored names left out.
\<close>

definition as_keywords ::
  "(string \<times> 'v) list \<Rightarrow> string list \<Rightarrow> (string \<rightharpoonup> 'v)" where
  "as_keywords properties ignore =
     map_of (filter (\<lambda>(attr, v). attr \<notin> set ignore) properties)"

text \<open>The unit vector of an axis name.\<close>

fun axis_vector :: "axis \<Rightarrow> int list" where
  "axis_vector X = [1, 0, 0]"
| "axis_vector Y = [0, 1, 0]"
| "axis_vector Z = [0, 0, 1]"
| "axis_vector NegX = [-1, 0, 0]"
| "axis_vector NegY = [0, -1, 0]"
| "axis_vector NegZ = [0, 0, -1]"

fun cross :: "int list \<Rightarrow> int list \<Rightarrow> int list" where
  "cross [a1, a2, a3] [b1, b2, b3] =
     [a2 * b3 - a3 * b2, a3 * b1 - a1 * b3, a1 * b2 - a2 * b1]"
| "cross a b = []"

definition dot :: "int list \<Rightarrow> int list \<Rightarrow> int" where
  "dot a b = sum_list (map2 (*) a b)"

text \<open>
  The frame of a (forward, up) convention, one vector per row: the third direction
  \<open>forward \<times> up\<close>, then forward, then up. For forward \<open>Y\<close> and up \<open>Z\<close> the rows are the
  unit vectors in order.
\<close>

definition frame :: "axis \<Rightarrow> axis \<Rightarrow> matrix" where
  "frame forward up =
     [cross (axis_vector forward) (axis_vector up), axis_vector forward, axis_vector up]"

definition mat_mul :: "matrix \<Rightarrow> matrix \<Rightarrow> matrix" where
  "mat_mul a b = map (\<lambda>row. map (\<lambda>col. dot row col) (transpose b)) a"

text \<open>
  Modelled from the spec: \<open>axis_conversion\<close> is imported from \<open>bpy_extras.io_utils\<close>; its
  code is not part of the module. The spec calls its result the change-of-basis matrix
  derived from the configured forward/up axis pair: the 3x3 matrix that takes the frame
  of the source convention (\<open>from_forward\<close>, \<open>from_up\<close>) to the frame of the target
  convention (\<open>to_forward\<close>, \<open>to_up\<close>). The module passes one pair and leaves the other
  at the helper's defaults, forward \<open>Y\<close> and up \<open>Z\<close>. The frames are orthonormal when
  forward and up lie on different axes, which is what the orientation helper keeps its
  two enums to; the definition is a total function and says nothing of a helper that
  raises.
\<close>

definition axis_conversion :: "axis \<Rightarrow> axis \<Rightarrow> axis \<Rightarrow> axis \<Rightarrow> matrix" where
  "axis_conversion from_forward from_up to_forward to_up =
     mat_mul (transpose (frame to_forward to_up)) (frame from_forward from_up)"

text \<open>\<open>Matrix.to_4x4()\<close> on a 3x3 matrix: the matrix in the upper left, \<open>1\<close> in the corner.\<close>

definition to_4x4 :: "matrix \<Rightarrow> matrix" where
  "to_4x4 m = map (\<lambda>row. row @ [0]) m @ [[0, 0, 0, 1]]"

subsection \<open>The operators' execute methods\<close>

text \<open>The two ignore tuples, as the source writes them.\<close>

definition Import3DS_ignore :: "string list" where
  "Import3DS_ignore = [''axis_forward'', ''axis_up'', ''filter_glob'']"

definition Export3DS_ignore :: "string list" where
  "Export3DS_ignore = [''axis_forward'', ''axis_up'', ''filter_glob'', ''check_existing'']"

text \<open>
  \<open>Import3DS.execute\<close>. The delegate \<open>load\<close> is \<open>import_3ds.load\<close>; its result type \<open>'r\<close>
  stands for whatever it produces, a status set or an exception, with its effects.
\<close>

definition Import3DS_execute ::
  "('f Import3DS \<Rightarrow> 'c \<Rightarrow> (string \<rightharpoonup> 'f prop_value) \<Rightarrow> 'r) \<Rightarrow> 'f Import3DS \<Rightarrow> 'c \<Rightarrow> 'r" where
  "Import3DS_execute load self context =
     (let keywords = as_keywords (Import3DS_properties self) Import3DS_ignore;
          global_matrix = to_4x4 (axis_conversion (axis_forward self) (axis_up self) Y Z);
          keywords = keywords(''global_matrix'' \<mapsto> MatrixV global_matrix)
      in load self context keywords)"

text \<open>\<open>Export3DS.execute\<close>; \<open>save\<close> is \<open>export_3ds.save\<close>.\<close>

definition Export3DS_execute ::
  "('f Export3DS \<Rightarrow> 'c \<Rightarrow> (string \<rightharpoonup> 'f prop_value) \<Rightarrow> 'r) \<Rightarrow> 'f Export3DS \<Rightarrow> 'c \<Rightarrow> 'r" where
  "Export3DS_execute save self context =
     (let keywords = as_keywords (Export3DS_properties self) Export3DS_ignore;
          global_matrix = to_4x4 (axis_conversion Y Z (axis_forward self) (axis_up self));
          keywords = keywords(''global_matrix'' \<mapsto> MatrixV global_matrix)
      in save self context keywords)"

subsection \<open>File-browser context, layouts and the panels\<close>

text \<open>
  The exceptions the model needs: Python's \<open>AttributeError\<close> for an attribute read on
  \<open>None\<close>, and the two errors with which the host rejects a registration.
\<close>

datatype exn = AttributeError | ValueError | RuntimeError

text \<open>
  The active operator as a panel sees it: the panels read only its \<open>bl_idname\<close>. The file
  browser's \<open>active_operator\<close> is \<open>None\<close> when no operator runs in it.
\<close>

record operator =
  bl_idname :: string

record space_file =
  active_operator :: "operator option"

record bpy_context =
  space_data :: space_file

text \<open>
  A \<open>UILayout\<close>: the two flags the panels set and the entries added so far.
  \<open>layout.prop(data, name)\<close> adds a property widget, \<open>layout.operator(idname, text=...)\<close>
  an operator button.
\<close>

datatype layout_item =
    Prop "operator option" string
  | OperatorButton string string

record ui_layout =
  use_property_split :: bool
  use_property_decorate :: bool
  items :: "layout_item list"

definition layout_prop :: "ui_layout \<Rightarrow> operator option \<Rightarrow> string \<Rightarrow> ui_layout" where
  "layout_prop layout data property = layout\<lparr>items := items layout @ [Prop data property]\<rparr>"

definition layout_operator :: "ui_layout \<Rightarrow> string \<Rightarrow> string \<Rightarrow> ui_layout" where
  "layout_operator layout idname text =
     layout\<lparr>items := items layout @ [OperatorButton idname text]\<rparr>"

text \<open>A panel or menu instance: the module touches only its \<open>layout\<close>.\<close>

record ui_element =
  layout :: ui_layout

text \<open>
  The host names a registered operator type by its identifier with the part before the
  dot in upper case and the dot replaced by \<^verbatim>\<open>_OT_\<close>; that type name is what
  \<open>active_operator.bl_idname\<close> reads.
\<close>

definition toupper_ascii :: "char \<Rightarrow> char" where
  "toupper_ascii c =
     (if CHR ''a'' \<le> c \<and> c \<le> CHR ''z'' then char_of (of_char c - (32::nat)) else c)"

definition operator_type_name :: "string \<Rightarrow> string" where
  "operator_type_name idname =
     (if CHR ''.'' \<in> set idname
      then map toupper_ascii (takeWhile (\<lambda>c. c \<noteq> CHR ''.'') idname) @ ''_OT_'' @
           tl (dropWhile (\<lambda>c. c \<noteq> CHR ''.'') idname)
      else idname)"

text \<open>
  The four \<open>poll\<close> classmethods. \<open>operator.bl_idname\<close> on \<open>None\<close> raises
  \<open>AttributeError\<close>.
\<close>

definition MAX3DS_PT_import_include_poll :: "bpy_context \<Rightarrow> exn + bool" where
  "MAX3DS_PT_import_include_poll context =
     (let sfile = space_data context;
          operator = active_operator sfile
      in case operator of
           None \<Rightarrow> Inl AttributeError
         | Some op \<Rightarrow> Inr (bl_idname op = ''IMPORT_SCENE_OT_max3ds''))"

definition MAX3DS_PT_import_transform_poll :: "bpy_context \<Rightarrow> exn + bool" where
  "MAX3DS_PT_import_transform_poll context =
     (let sfile = space_data context;
          operator = active_operator sfile
      in case operator of
           None \<Rightarrow> Inl AttributeError
         | Some op \<Rightarrow> Inr (bl_idname op = ''IMPORT_SCENE_OT_max3ds''))"

definition MAX3DS_PT_export_include_poll :: "bpy_context \<Rightarrow> exn + bool" where
  "MAX3DS_PT_export_include_poll context =
     (let sfile = space_data context;
          operator = active_operator sfile
      in case operator of
           None \<Rightarrow> Inl AttributeError
         | Some op \<Rightarrow> Inr (bl_idname op = ''EXPORT_SCENE_OT_max3ds''))"

definition MAX3DS_PT_export_transform_poll :: "bpy_context \<Rightarrow> exn + bool" where
  "MAX3DS_PT_export_transform_poll context =
     (let sfile = space_data context;
          operator = active_operator sfile
      in case operator of
           None \<Rightarrow> Inl AttributeError
         | Some op \<Rightarrow> Inr (bl_idname op = ''EXPORT_SCENE_OT_max3ds''))"

text \<open>
  The four \<open>draw\<close> methods. Each sets the two layout flags and adds its property widgets
  for the active operator, which it hands to \<open>layout.prop\<close> without reading it.
\<close>

definition MAX3DS_PT_import_include_draw :: "ui_element \<Rightarrow> bpy_context \<Rightarrow> ui_element" where
  "MAX3DS_PT_import_include_draw self context =
     (let layout0 = (layout self)\<lparr>use_property_split := True\<rparr>;
          layout0 = layout0\<lparr>use_property_decorate := True\<rparr>;
          sfile = space_data context;
          operator = active_operator sfile;
          layout0 = layout_prop layout0 operator ''use_image_search'';
          layout0 = layout_prop layout0 operator ''read_keyframe''
      in self\<lparr>layout := layout0\<rparr>)"

definition MAX3DS_PT_import_transform_draw :: "ui_element \<Rightarrow> bpy_context \<Rightarrow> ui_element" where
  "MAX3DS_PT_import_transform_draw self context =
     (let layout0 = (layout self)\<lparr>use_property_split := True\<rparr>;
          layout0 = layout0\<lparr>use_property_decorate := False\<rparr>;
          sfile = space_data context;
          operator = active_operator sfile;
          layout0 = layout_prop layout0 operator ''constrain_size'';
          layout0 = layout_prop layout0 operator ''convert_measure'';
          layout0 = layout_prop layout0 operator ''use_apply_transform'';
          layout0 = layout_prop layout0 operator ''use_world_matrix'';
          layout0 = layout_prop layout0 operator ''axis_forward'';
          layout0 = layout_prop layout0 operator ''axis_up''
      in self\<lparr>layout := layout0\<rparr>)"

definition MAX3DS_PT_export_include_draw :: "ui_element \<Rightarrow> bpy_context \<Rightarrow> ui_element" where
  "MAX3DS_PT_export_include_draw self context =
     (let layout0 = (layout self)\<lparr>use_property_split := True\<rparr>;
          layout0 = layout0\<lparr>use_property_decorate := True\<rparr>;
          sfile = space_data context;
          operator = active_operator sfile;
          layout0 = layout_prop layout0 operator ''use_selection'';
          layout0 = layout_prop layout0 operator ''use_hierarchy'';
          layout0 = layout_prop layout0 operator ''write_keyframe''
      in self\<lparr>layout := layout0\<rparr>)"

definition MAX3DS_PT_export_transform_draw :: "ui_element \<Rightarrow> bpy_context \<Rightarrow> ui_element" where
  "MAX3DS_PT_export_transform_draw self context =
     (let layout0 = (layout self)\<lparr>use_property_split := True\<rparr>;
          layout0 = layout0\<lparr>use_property_decorate := False\<rparr>;
          sfile = space_data context;
          operator = active_operator sfile;
          layout0 = layout_prop layout0 operator ''scale_factor'';
          layout0 = layout_prop layout0 operator ''axis_forward'';
          layout0 = layout_prop layout0 operator ''axis_up''
      in self\<lparr>layout := layout0\<rparr>)"

subsection \<open>Menu callbacks\<close>

definition menu_func_export :: "ui_element \<Rightarrow> 'c \<Rightarrow> ui_element" where
  "menu_func_export self context =
     self\<lparr>layout := layout_operator (layout self) Export3DS_bl_idname ''3D Studio (.3ds)''\<rparr>"

definition menu_func_import :: "ui_element \<Rightarrow> 'c \<Rightarrow> ui_element" where
  "menu_func_import self context =
     self\<lparr>layout := layout_operator (layout self) Import3DS_bl_idname ''3D Studio (.3ds)''\<rparr>"

subsection \<open>Registration\<close>

text \<open>
  The host's registration tables as far as the module writes them: the registered
  classes and the draw-function lists of the two file menus. Classes and callbacks are
  known by name.
\<close>

record registry =
  classes :: "string set"
  TOPBAR_MT_file_import :: "string list"
  TOPBAR_MT_file_export :: "string list"

text \<open>
  \<open>bpy.utils.register_class\<close> rejects a class that is registered already,
  \<open>bpy.utils.unregister_class\<close> one that is not.
\<close>

definition register_class :: "string \<Rightarrow> registry \<Rightarrow> exn + registry" where
  "register_class cls reg =
     (if cls \<in> classes reg then Inl ValueError
      else Inr (reg\<lparr>classes := insert cls (classes reg)\<rparr>))"

definition unregister_class :: "string \<Rightarrow> registry \<Rightarrow> exn + registry" where
  "unregister_class cls reg =
     (if cls \<in> classes reg then Inr (reg\<lparr>classes := classes reg - {cls}\<rparr>)
      else Inl RuntimeError)"

text \<open>
  \<open>Menu.append\<close> puts the callback at the end of the menu's list; \<open>Menu.remove\<close> takes
  its first occurrence out and does nothing when there is none.
\<close>

definition menu_append :: "string \<Rightarrow> string list \<Rightarrow> string list" where
  "menu_append draw_func draw_funcs = draw_funcs @ [draw_func]"

definition menu_remove :: "string \<Rightarrow> string list \<Rightarrow> string list" where
  "menu_remove draw_func draw_funcs = remove1 draw_func draw_funcs"

text \<open>Sequencing of calls that may raise: the first exception ends the function.\<close>

definition and_then :: "exn + 'a \<Rightarrow> ('a \<Rightarrow> exn + 'b) \<Rightarrow> exn + 'b" where
  "and_then m f = (case m of Inl e \<Rightarrow> Inl e | Inr x \<Rightarrow> f x)"

definition register :: "registry \<Rightarrow> exn + registry" where
  "register reg =
     and_then (register_class ''Import3DS'' reg) (\<lambda>reg.
     and_then (register_class ''MAX3DS_PT_import_include'' reg) (\<lambda>reg.
     and_then (register_class ''MAX3DS_PT_import_transform'' reg) (\<lambda>reg.
     and_then (register_class ''Export3DS'' reg) (\<lambda>reg.
     and_then (register_class ''MAX3DS_PT_export_include'' reg) (\<lambda>reg.
     and_then (register_class ''MAX3DS_PT_export_transform'' reg) (\<lambda>reg.
     Inr (reg\<lparr>TOPBAR_MT_file_import :=
                 menu_append ''menu_func_import'' (TOPBAR_MT_file_import reg),
               TOPBAR_MT_file_export :=
                 menu_append ''menu_func_export'' (TOPBAR_MT_file_export reg)\<rparr>)))))))"

definition unregister :: "registry \<Rightarrow> exn + registry" where
  "unregister reg =
     and_then (unregister_class ''Import3DS'' reg) (\<lambda>reg.
     and_then (unregister_class ''MAX3DS_PT_import_include'' reg) (\<lambda>reg.
     and_then (unregister_class ''MAX3DS_PT_import_transform'' reg) (\<lambda>reg.
     and_then (unregister_class ''Export3DS'' reg) (\<lambda>reg.
     and_then (unregister_class ''MAX3DS_PT_export_include'' reg) (\<lambda>reg.
     and_then (unregister_class ''MAX3DS_PT_export_transform'' reg) (\<lambda>reg.
     Inr (reg\<lparr>TOPBAR_MT_file_import :=
                 menu_remove ''menu_func_import'' (TOPBAR_MT_file_import reg),
               TOPBAR_MT_file_export :=
                 menu_remove ''menu_func_export'' (TOPBAR_MT_file_export reg)\<rparr>)))))))"

text \<open>The classes and callbacks the module owns.\<close>

definition addon_classes :: "string set" where
  "addon_classes =
     {''Import3DS'', ''MAX3DS_PT_import_include'', ''MAX3DS_PT_import_transform'',
      ''Export3DS'', ''MAX3DS_PT_export_include'', ''MAX3DS_PT_export_transform''}"

subsection \<open>Declared defaults\<close>

text \<open>
  The defaults the property declarations give (\<open>filepath\<close> has none, so it is empty;
  \<open>check_existing\<close> is true in the export helper). The float defaults \<open>10.0\<close> and \<open>1.0\<close>
  are arguments, the float type being a parameter.
\<close>

definition Import3DS_defaults :: "'f \<Rightarrow> 'f Import3DS" where
  "Import3DS_defaults ten =
     \<lparr>filepath = [], filter_glob = ''*.3ds'',
      axis_forward = fst orientation_default, axis_up = snd orientation_default,
      constrain_size = ten, convert_measure = False, use_image_search = True,
      use_apply_transform = True, read_keyframe = True, use_world_matrix = False\<rparr>"

definition Export3DS_defaults :: "'f \<Rightarrow> 'f Export3DS" where
  "Export3DS_defaults one =
     \<lparr>filepath = [], filter_glob = ''*.3ds'',
      axis_forward = fst orientation_default, axis_up = snd orientation_default,
      check_existing = True, scale_factor = one, use_selection = False,
      use_hierarchy = False, write_keyframe = False\<rparr>"

text \<open>
  A forward and an up axis span a frame when they lie on different axes. \<open>mat_vec\<close>
  applies a matrix to a vector.
\<close>

definition proper_orientation :: "axis \<Rightarrow> axis \<Rightarrow> bool" where
  "proper_orientation forward up \<longleftrightarrow>
     cross (axis_vector forward) (axis_vector up) \<noteq> [0, 0, 0]"

definition mat_vec :: "matrix \<Rightarrow> int list \<Rightarrow> int list" where
  "mat_vec m v = map (\<lambda>row. dot row v) m"

section \<open>Properties\<close>

subsection \<open>Auxiliary facts\<close>

lemma as_keywords_import:
  "as_keywords (Import3DS_properties self) Import3DS_ignore =
     [''filepath'' \<mapsto> StringV (filepath self),
      ''constrain_size'' \<mapsto> FloatV (constrain_size self),
      ''convert_measure'' \<mapsto> BoolV (convert_measure self),
      ''use_image_search'' \<mapsto> BoolV (use_image_search self),
      ''use_apply_transform'' \<mapsto> BoolV (use_apply_transform self),
      ''read_keyframe'' \<mapsto> BoolV (read_keyframe self),
      ''use_world_matrix'' \<mapsto> BoolV (use_world_matrix self)]"
  by (rule ext) (simp add: as_keywords_def Import3DS_properties_def Import3DS_ignore_def)

lemma as_keywords_export:
  "as_keywords (Export3DS_properties self) Export3DS_ignore =
     [''filepath'' \<mapsto> StringV (filepath self),
      ''scale_factor'' \<mapsto> FloatV (scale_factor self),
      ''use_selection'' \<mapsto> BoolV (use_selection self),
      ''use_hierarchy'' \<mapsto> BoolV (use_hierarchy self),
      ''write_keyframe'' \<mapsto> BoolV (write_keyframe self)]"
  by (rule ext) (simp add: as_keywords_def Export3DS_properties_def Export3DS_ignore_def)

lemma dom_as_keywords:
  "dom (as_keywords properties ignore) = set (map fst properties) - set ignore"
  by (auto simp: as_keywords_def dom_map_of_conv_image_fst)

lemma Import3DS_property_names:
  "map fst (Import3DS_properties self) = Import3DS_fields"
  by (simp add: Import3DS_properties_def Import3DS_fields_def)

lemma Export3DS_property_names:
  "map fst (Export3DS_properties self) =
     [''filepath'', ''check_existing'', ''filter_glob'', ''scale_factor'', ''use_selection'',
      ''use_hierarchy'', ''write_keyframe'', ''axis_forward'', ''axis_up'']"
  by (simp add: Export3DS_properties_def)

lemma Import3DS_execute_eq:
  "Import3DS_execute load self ctx =
     load self ctx
       ((as_keywords (Import3DS_properties self) Import3DS_ignore)
          (''global_matrix'' \<mapsto>
             MatrixV (to_4x4 (axis_conversion (axis_forward self) (axis_up self) Y Z))))"
  by (simp add: Import3DS_execute_def Let_def)

lemma Export3DS_execute_eq:
  "Export3DS_execute save self ctx =
     save self ctx
       ((as_keywords (Export3DS_properties self) Export3DS_ignore)
          (''global_matrix'' \<mapsto>
             MatrixV (to_4x4 (axis_conversion Y Z (axis_forward self) (axis_up self)))))"
  by (simp add: Export3DS_execute_def Let_def)

text \<open>
  The helper model on proper orientations: the import matrix takes the configured
  forward and up directions to the host's \<open>Y\<close> and \<open>Z\<close>, and the export matrix undoes
  it.
\<close>

lemma axis_conversion_maps_frame:
  assumes "proper_orientation f u"
  shows "mat_vec (axis_conversion f u Y Z) (axis_vector f) = axis_vector Y"
    and "mat_vec (axis_conversion f u Y Z) (axis_vector u) = axis_vector Z"
  using assms
  by (cases f; cases u;
      simp add: proper_orientation_def axis_conversion_def frame_def mat_mul_def mat_vec_def
        dot_def)+

lemma axis_conversion_inverse:
  assumes "proper_orientation f u"
  shows "mat_mul (axis_conversion Y Z f u) (axis_conversion f u Y Z) =
           [[1, 0, 0], [0, 1, 0], [0, 0, 1]]"
  using assms
  by (cases f; cases u;
      simp add: proper_orientation_def axis_conversion_def frame_def mat_mul_def dot_def)

lemma type_name_Import3DS:
  "operator_type_name Import3DS_bl_idname = ''IMPORT_SCENE_OT_max3ds''"
  by code_simp

lemma type_name_Export3DS:
  "operator_type_name Export3DS_bl_idname = ''EXPORT_SCENE_OT_max3ds''"
  by code_simp

subsection \<open>What the operators hand to the codec\<close>

text \<open>
  C1. For every assignment of the import operator's fields and every delegate,
  \<open>Import3DS.execute\<close> calls \<open>load\<close> with the operator, the context and a keyword record
  that holds the declared configuration fields other than \<open>axis_forward\<close>, \<open>axis_up\<close> and
  \<open>filter_glob\<close>, each with the operator's value, and the computed \<open>global_matrix\<close>; its
  keys are those and no others. \<open>Export3DS.execute\<close> does the same for \<open>save\<close> with the
  export operator's configuration fields. The key set is read off by a delegate that
  returns the keys it is given.
\<close>

theorem execute_keywords_exact:
  "Import3DS_execute load i ctx =
     load i ctx
       [''filepath'' \<mapsto> StringV (filepath i),
        ''constrain_size'' \<mapsto> FloatV (constrain_size i),
        ''convert_measure'' \<mapsto> BoolV (convert_measure i),
        ''use_image_search'' \<mapsto> BoolV (use_image_search i),
        ''use_apply_transform'' \<mapsto> BoolV (use_apply_transform i),
        ''read_keyframe'' \<mapsto> BoolV (read_keyframe i),
        ''use_world_matrix'' \<mapsto> BoolV (use_world_matrix i),
        ''global_matrix'' \<mapsto>
           MatrixV (to_4x4 (axis_conversion (axis_forward i) (axis_up i) Y Z))]
   \<and> Import3DS_execute (\<lambda>_ _ kw. dom kw) i ctx =
       (set Import3DS_fields - {''axis_forward'', ''axis_up'', ''filter_glob''})
         \<union> {''global_matrix''}
   \<and> Export3DS_execute save e ctx' =
     save e ctx'
       [''filepath'' \<mapsto> StringV (filepath e),
        ''scale_factor'' \<mapsto> FloatV (scale_factor e),
        ''use_selection'' \<mapsto> BoolV (use_selection e),
        ''use_hierarchy'' \<mapsto> BoolV (use_hierarchy e),
        ''write_keyframe'' \<mapsto> BoolV (write_keyframe e),
        ''global_matrix'' \<mapsto>
           MatrixV (to_4x4 (axis_conversion Y Z (axis_forward e) (axis_up e)))]
   \<and> Export3DS_execute (\<lambda>_ _ kw. dom kw) e ctx' =
       (set Export3DS_fields - {''axis_forward'', ''axis_up'', ''filter_glob''})
         \<union> {''global_matrix''}"
proof (intro conjI)
  show "Import3DS_execute (\<lambda>_ _ kw. dom kw) i ctx =
       (set Import3DS_fields - {''axis_forward'', ''axis_up'', ''filter_glob''})
         \<union> {''global_matrix''}"
    unfolding Import3DS_execute_eq as_keywords_import
    by (auto simp: Import3DS_fields_def)
  show "Export3DS_execute (\<lambda>_ _ kw. dom kw) e ctx' =
       (set Export3DS_fields - {''axis_forward'', ''axis_up'', ''filter_glob''})
         \<union> {''global_matrix''}"
    unfolding Export3DS_execute_eq as_keywords_export
    by (auto simp: Export3DS_fields_def)
qed (simp_all add: Import3DS_execute_eq Export3DS_execute_eq as_keywords_import
      as_keywords_export)

theorem execute_keywords_exact_witness:
  "Import3DS_execute (\<lambda>_ _ kw. dom kw) (Import3DS_defaults (10::int)) () =
     {''filepath'', ''constrain_size'', ''convert_measure'', ''use_image_search'',
      ''use_apply_transform'', ''read_keyframe'', ''use_world_matrix'', ''global_matrix''}
   \<and> Export3DS_execute (\<lambda>_ _ kw. dom kw) (Export3DS_defaults (1::int)) () =
     {''filepath'', ''scale_factor'', ''use_selection'', ''use_hierarchy'',
      ''write_keyframe'', ''global_matrix''}"
  using execute_keywords_exact [of "\<lambda>_ _ kw. dom kw" "Import3DS_defaults (10::int)" "()"
      "\<lambda>_ _ kw. dom kw" "Export3DS_defaults (1::int)" "()"]
  by (auto simp: Import3DS_fields_def Export3DS_fields_def)

text \<open>
  C2. For every configured pair, the \<open>global_matrix\<close> entry that \<open>Import3DS.execute\<close> hands
  on is the 4x4 form of \<open>axis_conversion\<close> called with the pair as the source convention
  (the target left at the defaults), and the entry that \<open>Export3DS.execute\<close> hands on is
  the 4x4 form of \<open>axis_conversion\<close> called with the pair as the target convention (the
  source left at the defaults). The entry is read off by a delegate that returns it.
\<close>

theorem execute_global_matrix:
  "Import3DS_execute (\<lambda>_ _ kw. kw ''global_matrix'') i ctx =
     Some (MatrixV (to_4x4 (axis_conversion (axis_forward i) (axis_up i) Y Z)))
   \<and> Export3DS_execute (\<lambda>_ _ kw. kw ''global_matrix'') e ctx' =
     Some (MatrixV (to_4x4 (axis_conversion Y Z (axis_forward e) (axis_up e))))"
  by (simp add: Import3DS_execute_eq Export3DS_execute_eq)

theorem execute_global_matrix_witness:
  "Import3DS_execute (\<lambda>_ _ kw. kw ''global_matrix'')
       ((Import3DS_defaults (10::int))\<lparr>axis_forward := NegZ, axis_up := Y\<rparr>) () =
     Some (MatrixV [[1, 0, 0, 0], [0, 0, -1, 0], [0, 1, 0, 0], [0, 0, 0, 1]])
   \<and> Export3DS_execute (\<lambda>_ _ kw. kw ''global_matrix'')
       ((Export3DS_defaults (1::int))\<lparr>axis_forward := NegZ, axis_up := Y\<rparr>) () =
     Some (MatrixV [[1, 0, 0, 0], [0, 0, 1, 0], [0, -1, 0, 0], [0, 0, 0, 1]])"
  using execute_global_matrix
    [of "(Import3DS_defaults (10::int))\<lparr>axis_forward := NegZ, axis_up := Y\<rparr>" "()"
        "(Export3DS_defaults (1::int))\<lparr>axis_forward := NegZ, axis_up := Y\<rparr>" "()"]
  by (simp add: axis_conversion_def frame_def mat_mul_def dot_def to_4x4_def)

subsection \<open>Registration\<close>

lemma and_then_register_class:
  "cls \<notin> classes reg \<Longrightarrow>
     and_then (register_class cls reg) k = k (reg\<lparr>classes := insert cls (classes reg)\<rparr>)"
  by (simp add: register_class_def and_then_def)

lemma and_then_unregister_class:
  "cls \<in> classes reg \<Longrightarrow>
     and_then (unregister_class cls reg) k = k (reg\<lparr>classes := classes reg - {cls}\<rparr>)"
  by (simp add: unregister_class_def and_then_def)

lemma register_six:
  assumes "distinct [c1, c2, c3, c4, c5, c6]"
    and "classes reg \<inter> {c1, c2, c3, c4, c5, c6} = {}"
  shows "and_then (register_class c1 reg) (\<lambda>reg.
         and_then (register_class c2 reg) (\<lambda>reg.
         and_then (register_class c3 reg) (\<lambda>reg.
         and_then (register_class c4 reg) (\<lambda>reg.
         and_then (register_class c5 reg) (\<lambda>reg.
         and_then (register_class c6 reg) k))))) =
         k (reg\<lparr>classes := classes reg \<union> {c1, c2, c3, c4, c5, c6}\<rparr>)"
proof -
  from assms(2) have fresh: "c1 \<notin> classes reg" "c2 \<notin> classes reg" "c3 \<notin> classes reg"
    "c4 \<notin> classes reg" "c5 \<notin> classes reg" "c6 \<notin> classes reg"
    by blast+
  from assms(1) have ne: "c2 \<noteq> c1" "c3 \<noteq> c1" "c3 \<noteq> c2" "c4 \<noteq> c1" "c4 \<noteq> c2" "c4 \<noteq> c3"
    "c5 \<noteq> c1" "c5 \<noteq> c2" "c5 \<noteq> c3" "c5 \<noteq> c4"
    "c6 \<noteq> c1" "c6 \<noteq> c2" "c6 \<noteq> c3" "c6 \<noteq> c4" "c6 \<noteq> c5"
    by auto
  have eq: "insert c6 (insert c5 (insert c4 (insert c3 (insert c2 (insert c1 (classes reg)))))) =
      classes reg \<union> {c1, c2, c3, c4, c5, c6}"
    by blast
  show ?thesis
    by (simp add: and_then_register_class fresh ne eq)
qed

lemma unregister_six:
  assumes "{c1, c2, c3, c4, c5, c6} \<subseteq> classes reg"
    and "distinct [c1, c2, c3, c4, c5, c6]"
  shows "and_then (unregister_class c1 reg) (\<lambda>reg.
         and_then (unregister_class c2 reg) (\<lambda>reg.
         and_then (unregister_class c3 reg) (\<lambda>reg.
         and_then (unregister_class c4 reg) (\<lambda>reg.
         and_then (unregister_class c5 reg) (\<lambda>reg.
         and_then (unregister_class c6 reg) k))))) =
         k (reg\<lparr>classes := classes reg - {c1, c2, c3, c4, c5, c6}\<rparr>)"
proof -
  from assms(1) have present: "c1 \<in> classes reg" "c2 \<in> classes reg" "c3 \<in> classes reg"
    "c4 \<in> classes reg" "c5 \<in> classes reg" "c6 \<in> classes reg"
    by blast+
  from assms(2) have ne: "c2 \<noteq> c1" "c3 \<noteq> c1" "c3 \<noteq> c2" "c4 \<noteq> c1" "c4 \<noteq> c2" "c4 \<noteq> c3"
    "c5 \<noteq> c1" "c5 \<noteq> c2" "c5 \<noteq> c3" "c5 \<noteq> c4"
    "c6 \<noteq> c1" "c6 \<noteq> c2" "c6 \<noteq> c3" "c6 \<noteq> c4" "c6 \<noteq> c5"
    by auto
  have eq: "classes reg - {c1} - {c2} - {c3} - {c4} - {c5} - {c6} =
      classes reg - {c1, c2, c3, c4, c5, c6}"
    by blast
  show ?thesis
    by (simp add: and_then_unregister_class present ne eq)
qed

lemma addon_classes_distinct:
  "distinct [''Import3DS'', ''MAX3DS_PT_import_include'', ''MAX3DS_PT_import_transform'',
      ''Export3DS'', ''MAX3DS_PT_export_include'', ''MAX3DS_PT_export_transform'']"
  by simp

text \<open>
  From a registry that holds none of the module's classes, \<open>register\<close> succeeds; from one
  that holds them all, \<open>unregister\<close> succeeds.
\<close>

lemma register_fresh:
  assumes "classes reg \<inter> addon_classes = {}"
  shows "register reg =
     Inr (reg\<lparr>classes := classes reg \<union> addon_classes,
              TOPBAR_MT_file_import := TOPBAR_MT_file_import reg @ [''menu_func_import''],
              TOPBAR_MT_file_export := TOPBAR_MT_file_export reg @ [''menu_func_export'']\<rparr>)"
  unfolding register_def
  by (subst register_six [OF addon_classes_distinct assms [unfolded addon_classes_def]])
     (simp add: menu_append_def addon_classes_def)

lemma unregister_registered:
  assumes "addon_classes \<subseteq> classes reg"
  shows "unregister reg =
     Inr (reg\<lparr>classes := classes reg - addon_classes,
              TOPBAR_MT_file_import :=
                menu_remove ''menu_func_import'' (TOPBAR_MT_file_import reg),
              TOPBAR_MT_file_export :=
                menu_remove ''menu_func_export'' (TOPBAR_MT_file_export reg)\<rparr>)"
  unfolding unregister_def
  by (subst unregister_six [OF assms [unfolded addon_classes_def] addon_classes_distinct])
     (simp add: addon_classes_def)

text \<open>
  C3. Take a registration state in which the add-on is not registered: none of its six
  classes is in the class table and neither menu holds its callback. Then \<open>register\<close>
  succeeds, the classes it adds are exactly the six, it appends \<open>menu_func_import\<close> to the
  import menu and \<open>menu_func_export\<close> to the export menu, and \<open>unregister\<close> on the result
  succeeds, takes exactly those six classes and two callbacks out again, and gives back
  the initial state.
\<close>

theorem register_unregister_inverse:
  assumes "classes reg \<inter> addon_classes = {}"
    and "''menu_func_import'' \<notin> set (TOPBAR_MT_file_import reg)"
    and "''menu_func_export'' \<notin> set (TOPBAR_MT_file_export reg)"
  shows "\<exists>reg'. register reg = Inr reg'
           \<and> classes reg' - classes reg = addon_classes
           \<and> TOPBAR_MT_file_import reg' = TOPBAR_MT_file_import reg @ [''menu_func_import'']
           \<and> TOPBAR_MT_file_export reg' = TOPBAR_MT_file_export reg @ [''menu_func_export'']
           \<and> unregister reg' = Inr reg
           \<and> classes reg' - addon_classes = classes reg"
proof -
  define reg' where "reg' = reg\<lparr>classes := classes reg \<union> addon_classes,
              TOPBAR_MT_file_import := TOPBAR_MT_file_import reg @ [''menu_func_import''],
              TOPBAR_MT_file_export := TOPBAR_MT_file_export reg @ [''menu_func_export'']\<rparr>"
  have r: "register reg = Inr reg'"
    unfolding reg'_def using assms(1) by (rule register_fresh)
  have c: "classes reg' = classes reg \<union> addon_classes"
    and m1: "TOPBAR_MT_file_import reg' = TOPBAR_MT_file_import reg @ [''menu_func_import'']"
    and m2: "TOPBAR_MT_file_export reg' = TOPBAR_MT_file_export reg @ [''menu_func_export'']"
    by (simp_all add: reg'_def)
  from c have "addon_classes \<subseteq> classes reg'"
    by blast
  then have u: "unregister reg' =
     Inr (reg'\<lparr>classes := classes reg' - addon_classes,
              TOPBAR_MT_file_import :=
                menu_remove ''menu_func_import'' (TOPBAR_MT_file_import reg'),
              TOPBAR_MT_file_export :=
                menu_remove ''menu_func_export'' (TOPBAR_MT_file_export reg')\<rparr>)"
    by (rule unregister_registered)
  have c': "classes reg' - addon_classes = classes reg"
    using assms(1) c by blast
  have d: "classes reg' - classes reg = addon_classes"
    using assms(1) c by blast
  have r1: "menu_remove ''menu_func_import'' (TOPBAR_MT_file_import reg') =
      TOPBAR_MT_file_import reg"
    unfolding m1 menu_remove_def using assms(2) by (simp add: remove1_append)
  have r2: "menu_remove ''menu_func_export'' (TOPBAR_MT_file_export reg') =
      TOPBAR_MT_file_export reg"
    unfolding m2 menu_remove_def using assms(3) by (simp add: remove1_append)
  have "unregister reg' = Inr reg"
    unfolding u c' r1 r2 by (simp add: reg'_def)
  with r d m1 m2 c' show ?thesis
    by blast
qed

theorem register_unregister_inverse_witness:
  "\<exists>reg'. register \<lparr>classes = {''FILE_PT_operator''},
                   TOPBAR_MT_file_import = [''menu_func_import_obj''],
                   TOPBAR_MT_file_export = []\<rparr> = Inr reg'
     \<and> classes reg' - {''FILE_PT_operator''} = addon_classes
     \<and> TOPBAR_MT_file_import reg' = [''menu_func_import_obj'', ''menu_func_import'']
     \<and> TOPBAR_MT_file_export reg' = [''menu_func_export'']
     \<and> unregister reg' = Inr \<lparr>classes = {''FILE_PT_operator''},
                   TOPBAR_MT_file_import = [''menu_func_import_obj''],
                   TOPBAR_MT_file_export = []\<rparr>
     \<and> classes reg' - addon_classes = {''FILE_PT_operator''}"
proof -
  let ?reg = "\<lparr>classes = {''FILE_PT_operator''},
                   TOPBAR_MT_file_import = [''menu_func_import_obj''],
                   TOPBAR_MT_file_export = []\<rparr>"
  have h1: "classes ?reg \<inter> addon_classes = {}"
    by (simp add: addon_classes_def)
  have h2: "''menu_func_import'' \<notin> set (TOPBAR_MT_file_import ?reg)"
    by simp
  have h3: "''menu_func_export'' \<notin> set (TOPBAR_MT_file_export ?reg)"
    by simp
  show ?thesis
    using register_unregister_inverse [OF h1 h2 h3] by simp
qed

subsection \<open>Panels\<close>

text \<open>
  C4. In every context in which the file browser has an active operator, each of the
  four \<open>poll\<close> classmethods returns, and returns true exactly when the active operator's
  identifier is the one of the panel's owning operator: \<open>Import3DS\<close> for the two import
  panels, \<open>Export3DS\<close> for the two export panels. The identifier is compared in the form
  in which the host names the registered operator type, \<^verbatim>\<open>IMPORT_SCENE_OT_max3ds\<close> for
  \<^verbatim>\<open>import_scene.max3ds\<close>.
\<close>

theorem poll_iff_owning_operator:
  assumes "active_operator (space_data ctx) = Some op"
  shows "MAX3DS_PT_import_include_poll ctx =
           Inr (bl_idname op = operator_type_name Import3DS_bl_idname)
       \<and> MAX3DS_PT_import_transform_poll ctx =
           Inr (bl_idname op = operator_type_name Import3DS_bl_idname)
       \<and> MAX3DS_PT_export_include_poll ctx =
           Inr (bl_idname op = operator_type_name Export3DS_bl_idname)
       \<and> MAX3DS_PT_export_transform_poll ctx =
           Inr (bl_idname op = operator_type_name Export3DS_bl_idname)
       \<and> operator_type_name Import3DS_bl_idname = ''IMPORT_SCENE_OT_max3ds''
       \<and> operator_type_name Export3DS_bl_idname = ''EXPORT_SCENE_OT_max3ds''"
  using assms
  by (simp add: MAX3DS_PT_import_include_poll_def MAX3DS_PT_import_transform_poll_def
      MAX3DS_PT_export_include_poll_def MAX3DS_PT_export_transform_poll_def
      type_name_Import3DS type_name_Export3DS)

theorem poll_iff_owning_operator_witness:
  "MAX3DS_PT_import_include_poll
       \<lparr>space_data = \<lparr>active_operator = Some \<lparr>bl_idname = ''IMPORT_SCENE_OT_max3ds''\<rparr>\<rparr>\<rparr> =
     Inr True
   \<and> MAX3DS_PT_import_transform_poll
       \<lparr>space_data = \<lparr>active_operator = Some \<lparr>bl_idname = ''IMPORT_SCENE_OT_max3ds''\<rparr>\<rparr>\<rparr> =
     Inr True
   \<and> MAX3DS_PT_export_include_poll
       \<lparr>space_data = \<lparr>active_operator = Some \<lparr>bl_idname = ''IMPORT_SCENE_OT_max3ds''\<rparr>\<rparr>\<rparr> =
     Inr False
   \<and> MAX3DS_PT_export_transform_poll
       \<lparr>space_data = \<lparr>active_operator = Some \<lparr>bl_idname = ''IMPORT_SCENE_OT_max3ds''\<rparr>\<rparr>\<rparr> =
     Inr False"
  using poll_iff_owning_operator
    [of "\<lparr>space_data = \<lparr>active_operator = Some \<lparr>bl_idname = ''IMPORT_SCENE_OT_max3ds''\<rparr>\<rparr>\<rparr>"
        "\<lparr>bl_idname = ''IMPORT_SCENE_OT_max3ds''\<rparr>"]
  by (simp add: type_name_Import3DS type_name_Export3DS)

text \<open>
  C10. No \<open>poll\<close> guards against a missing operator: in a context whose file browser has
  no active operator each of the four raises \<open>AttributeError\<close> rather than return false,
  and each returns a truth value exactly in the contexts that have an active operator.
\<close>

theorem poll_without_operator_raises:
  "(active_operator (space_data ctx) = None \<longrightarrow>
      MAX3DS_PT_import_include_poll ctx = Inl AttributeError
    \<and> MAX3DS_PT_import_transform_poll ctx = Inl AttributeError
    \<and> MAX3DS_PT_export_include_poll ctx = Inl AttributeError
    \<and> MAX3DS_PT_export_transform_poll ctx = Inl AttributeError)
   \<and> ((\<exists>b. MAX3DS_PT_import_include_poll ctx = Inr b) =
        (active_operator (space_data ctx) \<noteq> None))
   \<and> ((\<exists>b. MAX3DS_PT_import_transform_poll ctx = Inr b) =
        (active_operator (space_data ctx) \<noteq> None))
   \<and> ((\<exists>b. MAX3DS_PT_export_include_poll ctx = Inr b) =
        (active_operator (space_data ctx) \<noteq> None))
   \<and> ((\<exists>b. MAX3DS_PT_export_transform_poll ctx = Inr b) =
        (active_operator (space_data ctx) \<noteq> None))"
  by (cases "active_operator (space_data ctx)")
     (simp_all add: MAX3DS_PT_import_include_poll_def MAX3DS_PT_import_transform_poll_def
      MAX3DS_PT_export_include_poll_def MAX3DS_PT_export_transform_poll_def)

theorem poll_without_operator_raises_witness:
  "MAX3DS_PT_import_include_poll \<lparr>space_data = \<lparr>active_operator = None\<rparr>\<rparr> =
     Inl AttributeError
   \<and> MAX3DS_PT_import_transform_poll \<lparr>space_data = \<lparr>active_operator = None\<rparr>\<rparr> =
     Inl AttributeError
   \<and> MAX3DS_PT_export_include_poll \<lparr>space_data = \<lparr>active_operator = None\<rparr>\<rparr> =
     Inl AttributeError
   \<and> MAX3DS_PT_export_transform_poll \<lparr>space_data = \<lparr>active_operator = None\<rparr>\<rparr> =
     Inl AttributeError"
  using poll_without_operator_raises [of "\<lparr>space_data = \<lparr>active_operator = None\<rparr>\<rparr>"]
  by simp

text \<open>
  C6. Each \<open>draw\<close> adds to its layout, after what the layout already holds, property
  widgets for the active operator in one fixed order, whatever the context:
  import-include \<open>use_image_search\<close>, \<open>read_keyframe\<close>; import-transform \<open>constrain_size\<close>,
  \<open>convert_measure\<close>, \<open>use_apply_transform\<close>, \<open>use_world_matrix\<close>, \<open>axis_forward\<close>, \<open>axis_up\<close>;
  export-include \<open>use_selection\<close>, \<open>use_hierarchy\<close>, \<open>write_keyframe\<close>; export-transform
  \<open>scale_factor\<close>, \<open>axis_forward\<close>, \<open>axis_up\<close>. Every name is a configuration field of the
  panel's operator, and nothing else is added.
\<close>

theorem draw_fixed_sequences:
  "items (layout (MAX3DS_PT_import_include_draw self ctx)) =
     items (layout self) @
       map (Prop (active_operator (space_data ctx))) [''use_image_search'', ''read_keyframe'']
   \<and> items (layout (MAX3DS_PT_import_transform_draw self ctx)) =
     items (layout self) @
       map (Prop (active_operator (space_data ctx)))
         [''constrain_size'', ''convert_measure'', ''use_apply_transform'',
          ''use_world_matrix'', ''axis_forward'', ''axis_up'']
   \<and> items (layout (MAX3DS_PT_export_include_draw self ctx)) =
     items (layout self) @
       map (Prop (active_operator (space_data ctx)))
         [''use_selection'', ''use_hierarchy'', ''write_keyframe'']
   \<and> items (layout (MAX3DS_PT_export_transform_draw self ctx)) =
     items (layout self) @
       map (Prop (active_operator (space_data ctx)))
         [''scale_factor'', ''axis_forward'', ''axis_up'']
   \<and> set [''use_image_search'', ''read_keyframe''] \<subseteq> set Import3DS_fields
   \<and> set [''constrain_size'', ''convert_measure'', ''use_apply_transform'',
          ''use_world_matrix'', ''axis_forward'', ''axis_up''] \<subseteq> set Import3DS_fields
   \<and> set [''use_selection'', ''use_hierarchy'', ''write_keyframe''] \<subseteq> set Export3DS_fields
   \<and> set [''scale_factor'', ''axis_forward'', ''axis_up''] \<subseteq> set Export3DS_fields"
proof (intro conjI)
  show "set [''use_image_search'', ''read_keyframe''] \<subseteq> set Import3DS_fields"
    by (simp add: Import3DS_fields_def)
  show "set [''constrain_size'', ''convert_measure'', ''use_apply_transform'',
          ''use_world_matrix'', ''axis_forward'', ''axis_up''] \<subseteq> set Import3DS_fields"
    by (simp add: Import3DS_fields_def)
  show "set [''use_selection'', ''use_hierarchy'', ''write_keyframe''] \<subseteq> set Export3DS_fields"
    by (simp add: Export3DS_fields_def)
  show "set [''scale_factor'', ''axis_forward'', ''axis_up''] \<subseteq> set Export3DS_fields"
    by (simp add: Export3DS_fields_def)
qed (simp_all add: MAX3DS_PT_import_include_draw_def MAX3DS_PT_import_transform_draw_def
      MAX3DS_PT_export_include_draw_def MAX3DS_PT_export_transform_draw_def
      layout_prop_def Let_def)

theorem draw_fixed_sequences_witness:
  "items (layout (MAX3DS_PT_import_include_draw
       \<lparr>layout = \<lparr>use_property_split = False, use_property_decorate = False, items = []\<rparr>\<rparr>
       \<lparr>space_data = \<lparr>active_operator = None\<rparr>\<rparr>)) =
     [Prop None ''use_image_search'', Prop None ''read_keyframe'']
   \<and> items (layout (MAX3DS_PT_export_transform_draw
       \<lparr>layout = \<lparr>use_property_split = False, use_property_decorate = False, items = []\<rparr>\<rparr>
       \<lparr>space_data = \<lparr>active_operator = Some \<lparr>bl_idname = ''EXPORT_SCENE_OT_max3ds''\<rparr>\<rparr>\<rparr>)) =
     [Prop (Some \<lparr>bl_idname = ''EXPORT_SCENE_OT_max3ds''\<rparr>) ''scale_factor'',
      Prop (Some \<lparr>bl_idname = ''EXPORT_SCENE_OT_max3ds''\<rparr>) ''axis_forward'',
      Prop (Some \<lparr>bl_idname = ''EXPORT_SCENE_OT_max3ds''\<rparr>) ''axis_up'']"
  using draw_fixed_sequences
      [of "\<lparr>layout = \<lparr>use_property_split = False, use_property_decorate = False, items = []\<rparr>\<rparr>"
          "\<lparr>space_data = \<lparr>active_operator = None\<rparr>\<rparr>"]
    draw_fixed_sequences
      [of "\<lparr>layout = \<lparr>use_property_split = False, use_property_decorate = False, items = []\<rparr>\<rparr>"
          "\<lparr>space_data = \<lparr>active_operator = Some \<lparr>bl_idname = ''EXPORT_SCENE_OT_max3ds''\<rparr>\<rparr>\<rparr>"]
  by simp

subsection \<open>Menu callbacks\<close>

text \<open>
  C7. \<open>menu_func_import\<close> appends one operator entry to the layout of the menu it is
  given, labelled \<^verbatim>\<open>3D Studio (.3ds)\<close> and bound to the identifier of \<open>Import3DS\<close>;
  \<open>menu_func_export\<close> appends one with the same label, bound to the identifier of
  \<open>Export3DS\<close>. Nothing else of the menu changes, and the context plays no part.
\<close>

theorem menu_funcs_append_one_entry:
  "menu_func_import self ctx =
     self\<lparr>layout := (layout self)\<lparr>items := items (layout self) @
        [OperatorButton Import3DS_bl_idname ''3D Studio (.3ds)'']\<rparr>\<rparr>
   \<and> menu_func_export self ctx' =
     self\<lparr>layout := (layout self)\<lparr>items := items (layout self) @
        [OperatorButton Export3DS_bl_idname ''3D Studio (.3ds)'']\<rparr>\<rparr>
   \<and> length (items (layout (menu_func_import self ctx))) = length (items (layout self)) + 1
   \<and> length (items (layout (menu_func_export self ctx'))) = length (items (layout self)) + 1
   \<and> Import3DS_bl_idname = ''import_scene.max3ds''
   \<and> Export3DS_bl_idname = ''export_scene.max3ds''"
  by (simp add: menu_func_import_def menu_func_export_def layout_operator_def
      Import3DS_bl_idname_def Export3DS_bl_idname_def)

theorem menu_funcs_append_one_entry_witness:
  "items (layout (menu_func_import
       \<lparr>layout = \<lparr>use_property_split = False, use_property_decorate = False,
                  items = [OperatorButton ''wm.obj_import'' ''Wavefront (.obj)'']\<rparr>\<rparr> ())) =
     [OperatorButton ''wm.obj_import'' ''Wavefront (.obj)'',
      OperatorButton ''import_scene.max3ds'' ''3D Studio (.3ds)'']
   \<and> items (layout (menu_func_export
       \<lparr>layout = \<lparr>use_property_split = False, use_property_decorate = False,
                  items = []\<rparr>\<rparr> ())) =
     [OperatorButton ''export_scene.max3ds'' ''3D Studio (.3ds)'']"
  using menu_funcs_append_one_entry
      [of "\<lparr>layout = \<lparr>use_property_split = False, use_property_decorate = False,
                  items = [OperatorButton ''wm.obj_import'' ''Wavefront (.obj)'']\<rparr>\<rparr>" "()"
          "()"]
    menu_funcs_append_one_entry
      [of "\<lparr>layout = \<lparr>use_property_split = False, use_property_decorate = False,
                  items = []\<rparr>\<rparr>" "()" "()"]
  by simp

subsection \<open>Pass-through, ignore tuples and the default orientation\<close>

text \<open>
  C5. \<open>Import3DS.execute\<close> is the call of the delegate and nothing more: for every
  operator state and context there is one keyword record such that, whatever the
  delegate \<open>load\<close> is, the result of \<open>execute\<close> is exactly the result of \<open>load\<close> on the same
  operator, the same context and that record. So \<open>execute\<close> checks nothing itself, returns
  the delegate's status unchanged, returns an error only when the delegate did, and
  leaves the operator as the delegate leaves it. \<open>Export3DS.execute\<close> relates to \<open>save\<close> in
  the same way.
\<close>

theorem execute_pass_through:
  "(\<exists>kw. \<forall>load. Import3DS_execute load i ctx = load i ctx kw)
   \<and> (\<exists>kw. \<forall>save. Export3DS_execute save e ctx' = save e ctx' kw)"
  by (auto simp: Import3DS_execute_eq Export3DS_execute_eq)

theorem execute_pass_through_witness:
  "Import3DS_execute (\<lambda>_ _ _. Inr ''FINISHED'') (Import3DS_defaults (10::int)) () =
     (Inr ''FINISHED'' :: exn + string)
   \<and> Import3DS_execute (\<lambda>_ _ _. Inl RuntimeError) (Import3DS_defaults (10::int)) () =
     (Inl RuntimeError :: exn + string)
   \<and> Export3DS_execute (\<lambda>_ _ _. Inr ''CANCELLED'') (Export3DS_defaults (1::int)) () =
     (Inr ''CANCELLED'' :: exn + string)
   \<and> Export3DS_execute (\<lambda>_ _ _. Inl RuntimeError) (Export3DS_defaults (1::int)) () =
     (Inl RuntimeError :: exn + string)"
proof -
  from execute_pass_through [of "Import3DS_defaults (10::int)" "()" "Export3DS_defaults (1::int)" "()"]
  obtain kwi kwe where
    i: "\<And>load :: int Import3DS \<Rightarrow> unit \<Rightarrow> (string \<rightharpoonup> int prop_value) \<Rightarrow> exn + string.
          Import3DS_execute load (Import3DS_defaults 10) () = load (Import3DS_defaults 10) () kwi"
    and e: "\<And>save :: int Export3DS \<Rightarrow> unit \<Rightarrow> (string \<rightharpoonup> int prop_value) \<Rightarrow> exn + string.
          Export3DS_execute save (Export3DS_defaults 1) () = save (Export3DS_defaults 1) () kwe"
    by blast
  show ?thesis
    by (simp add: i e)
qed

text \<open>
  C8. The export operator's ignore tuple is the import operator's with \<open>check_existing\<close>
  added, so it strictly contains it. \<open>check_existing\<close> is a property of the export
  operator, and the record \<open>Export3DS.execute\<close> hands to \<open>save\<close> has every property but the
  four ignored ones (and \<open>global_matrix\<close>); the record \<open>Import3DS.execute\<close> hands to \<open>load\<close>
  has every property but the three.
\<close>

theorem export_ignores_check_existing:
  "set Import3DS_ignore \<subset> set Export3DS_ignore
   \<and> set Export3DS_ignore - set Import3DS_ignore = {''check_existing''}
   \<and> set Import3DS_ignore = {''axis_forward'', ''axis_up'', ''filter_glob''}
   \<and> ''check_existing'' \<in> set (map fst (Export3DS_properties e))
   \<and> Export3DS_execute (\<lambda>_ _ kw. dom kw) e ctx' =
       (set (map fst (Export3DS_properties e)) - set Export3DS_ignore) \<union> {''global_matrix''}
   \<and> Import3DS_execute (\<lambda>_ _ kw. dom kw) i ctx =
       (set (map fst (Import3DS_properties i)) - set Import3DS_ignore) \<union> {''global_matrix''}"
proof (intro conjI)
  show "set Import3DS_ignore \<subset> set Export3DS_ignore"
  proof (rule psubsetI)
    show "set Import3DS_ignore \<subseteq> set Export3DS_ignore"
      by (simp add: Import3DS_ignore_def Export3DS_ignore_def)
    have "''check_existing'' \<in> set Export3DS_ignore"
      by (simp add: Export3DS_ignore_def)
    moreover have "''check_existing'' \<notin> set Import3DS_ignore"
      by (simp add: Import3DS_ignore_def)
    ultimately show "set Import3DS_ignore \<noteq> set Export3DS_ignore"
      by blast
  qed
  show "set Export3DS_ignore - set Import3DS_ignore = {''check_existing''}"
    by (simp add: Import3DS_ignore_def Export3DS_ignore_def)
  show "set Import3DS_ignore = {''axis_forward'', ''axis_up'', ''filter_glob''}"
    by (simp add: Import3DS_ignore_def)
  show "''check_existing'' \<in> set (map fst (Export3DS_properties e))"
    by (simp add: Export3DS_property_names)
  show "Export3DS_execute (\<lambda>_ _ kw. dom kw) e ctx' =
       (set (map fst (Export3DS_properties e)) - set Export3DS_ignore) \<union> {''global_matrix''}"
    by (simp add: Export3DS_execute_eq dom_as_keywords)
  show "Import3DS_execute (\<lambda>_ _ kw. dom kw) i ctx =
       (set (map fst (Import3DS_properties i)) - set Import3DS_ignore) \<union> {''global_matrix''}"
    by (simp add: Import3DS_execute_eq dom_as_keywords)
qed

theorem export_ignores_check_existing_witness:
  "Export3DS_execute (\<lambda>_ _ kw. kw ''check_existing'') (Export3DS_defaults (1::int)) () = None
   \<and> Export3DS_execute (\<lambda>_ _ kw. kw ''filepath'') (Export3DS_defaults (1::int)) () =
       Some (StringV [])"
proof -
  note d = export_ignores_check_existing
    [of "Export3DS_defaults (1::int)" "()" "Import3DS_defaults (10::int)" "()",
      THEN conjunct2, THEN conjunct2, THEN conjunct2, THEN conjunct2, THEN conjunct1]
  have "''check_existing'' \<notin> Export3DS_execute (\<lambda>_ _ kw. dom kw) (Export3DS_defaults (1::int)) ()"
    unfolding d by (simp add: Export3DS_ignore_def)
  then have "Export3DS_execute (\<lambda>_ _ kw. kw ''check_existing'') (Export3DS_defaults (1::int)) () = None"
    by (simp add: Export3DS_execute_eq domIff)
  moreover have "Export3DS_execute (\<lambda>_ _ kw. kw ''filepath'') (Export3DS_defaults (1::int)) () =
       Some (StringV [])"
    by (simp add: Export3DS_execute_eq as_keywords_export Export3DS_defaults_def)
  ultimately show ?thesis
    by simp
qed

text \<open>
  C9. With the orientation at the defaults the decorator declares on both operators,
  forward \<open>Y\<close> and up \<open>Z\<close>, the \<open>global_matrix\<close> that \<open>Import3DS.execute\<close> hands on and the one
  that \<open>Export3DS.execute\<close> hands on are both the 4x4 identity matrix.
\<close>

theorem default_axes_identity:
  assumes "(axis_forward i, axis_up i) = orientation_default"
    and "(axis_forward e, axis_up e) = orientation_default"
  shows "Import3DS_execute (\<lambda>_ _ kw. kw ''global_matrix'') i ctx =
           Some (MatrixV [[1, 0, 0, 0], [0, 1, 0, 0], [0, 0, 1, 0], [0, 0, 0, 1]])
       \<and> Export3DS_execute (\<lambda>_ _ kw. kw ''global_matrix'') e ctx' =
           Some (MatrixV [[1, 0, 0, 0], [0, 1, 0, 0], [0, 0, 1, 0], [0, 0, 0, 1]])"
proof -
  from assms have ax: "axis_forward i = Y" "axis_up i = Z" "axis_forward e = Y" "axis_up e = Z"
    by (simp_all add: orientation_default_def)
  have "to_4x4 (axis_conversion Y Z Y Z) =
      [[1, 0, 0, 0], [0, 1, 0, 0], [0, 0, 1, 0], [0, 0, 0, 1]]"
    by (simp add: axis_conversion_def frame_def mat_mul_def dot_def to_4x4_def)
  with ax show ?thesis
    by (simp add: Import3DS_execute_eq Export3DS_execute_eq)
qed

theorem default_axes_identity_witness:
  "Import3DS_execute (\<lambda>_ _ kw. kw ''global_matrix'') (Import3DS_defaults (10::int)) () =
     Some (MatrixV [[1, 0, 0, 0], [0, 1, 0, 0], [0, 0, 1, 0], [0, 0, 0, 1]])
   \<and> Export3DS_execute (\<lambda>_ _ kw. kw ''global_matrix'') (Export3DS_defaults (1::int)) () =
     Some (MatrixV [[1, 0, 0, 0], [0, 1, 0, 0], [0, 0, 1, 0], [0, 0, 0, 1]])"
  by (rule default_axes_identity)
     (simp_all add: Import3DS_defaults_def Export3DS_defaults_def)

end
